theory Spec2Isabelle
  imports
    Main
    "HOL-Library.AList"
    "HOL-Library.Char_ord"
    "HOL-Library.List_Lexorder"
    "HOL-Library.Multiset"
begin

section \<open>Python values used by the server\<close>

text \<open>
  A Python \<open>str\<close> is modelled as a \<^typ>\<open>string\<close>, each \<^typ>\<open>char\<close> standing for one code
  point below 256; \<open>bytes\<close> values are strings as well. The order on strings is the
  lexicographic order on code points, which is how Python compares \<open>str\<close> values.
\<close>

type_synonym bytes = string

text \<open>The exceptions that the modelled code can raise or let through.\<close>

datatype exn =
    KeyError
  | ValueError
  | TypeError
  | IndexError
  | FileNotFoundError
  | OSError string
  | UpstreamError string

subsection \<open>\<open>str.split(sep)\<close> and \<open>sep.join(parts)\<close>\<close>

text \<open>
  \<open>s.split(sep)\<close> cuts \<open>s\<close> at every occurrence of \<open>sep\<close>, found from the left and not
  overlapping; the result always has at least one component. Python raises on an empty
  separator; every call in the source passes a literal, non-empty one, and the model
  leaves the string uncut there.
\<close>

function py_split :: "string \<Rightarrow> string \<Rightarrow> string list" where
  "py_split sep [] = [[]]"
| "py_split sep (c # cs) =
     (if sep \<noteq> [] \<and> take (length sep) (c # cs) = sep
      then [] # py_split sep (drop (length sep) (c # cs))
      else (case py_split sep cs of
              [] \<Rightarrow> [[c]]
            | w # ws \<Rightarrow> (c # w) # ws))"
  by pat_completeness auto
termination
  by (relation "measure (\<lambda>(sep, s). length s)") (auto simp: neq_Nil_conv)

fun py_join :: "string \<Rightarrow> string list \<Rightarrow> string" where
  "py_join sep [] = []"
| "py_join sep [x] = x"
| "py_join sep (x # y # ys) = x @ sep @ py_join sep (y # ys)"

subsection \<open>\<open>int(string)\<close>\<close>

text \<open>
  Python's \<open>int\<close> on a string: surrounding whitespace is dropped, one sign may follow,
  then come decimal digits, where single underscores may stand between two digits.
  \<open>None\<close> is the \<open>ValueError\<close>. The whitespace of \<open>int\<close> is the six ASCII characters tab,
  line feed, vertical tab, form feed, carriage return and space, and below 256 the two
  code points 133 and 160. The interpreter's optional limit on the number of digits is
  not part of the model.
\<close>

definition is_space :: "char \<Rightarrow> bool" where
  "is_space c = ((of_char c :: nat) \<in> {9, 10, 11, 12, 13, 32, 133, 160})"

definition is_digit :: "char \<Rightarrow> bool" where
  "is_digit c = (48 \<le> (of_char c :: nat) \<and> (of_char c :: nat) \<le> 57)"

definition digit_value :: "char \<Rightarrow> int" where
  "digit_value c = int (of_char c) - 48"

definition py_strip :: "string \<Rightarrow> string" where
  "py_strip s = rev (dropWhile is_space (rev (dropWhile is_space s)))"

fun parse_digits :: "int \<Rightarrow> string \<Rightarrow> int option" where
  "parse_digits acc [] = Some acc"
| "parse_digits acc [c] =
     (if is_digit c then Some (acc * 10 + digit_value c) else None)"
| "parse_digits acc (c # d # rest) =
     (if is_digit c then parse_digits (acc * 10 + digit_value c) (d # rest)
      else if c = CHR ''_'' \<and> is_digit d then parse_digits acc (d # rest)
      else None)"

definition parse_unsigned :: "string \<Rightarrow> int option" where
  "parse_unsigned s =
     (case s of
        [] \<Rightarrow> None
      | c # cs \<Rightarrow> if is_digit c then parse_digits 0 (c # cs) else None)"

definition py_int :: "string \<Rightarrow> int option" where
  "py_int string =
     (case py_strip string of
        [] \<Rightarrow> None
      | c # cs \<Rightarrow>
          if c = CHR ''-'' then map_option uminus (parse_unsigned cs)
          else if c = CHR ''+'' then parse_unsigned cs
          else parse_unsigned (c # cs))"

subsection \<open>Dictionaries\<close>

text \<open>
  A Python \<open>dict\<close> keeps its keys in insertion order, and storing under a key that is
  already there replaces the value where the key stands. An association list with
  \<^const>\<open>AList.update\<close> does the same.
\<close>

type_synonym ('k, 'v) dict = "('k \<times> 'v) list"

definition dict_merge :: "('k, 'v) dict \<Rightarrow> ('k \<times> 'v) list \<Rightarrow> ('k, 'v) dict" where
  \<comment> \<open>\<open>{**d, **items}\<close>: the items are stored into \<open>d\<close> one by one\<close>
  "dict_merge d items = foldl (\<lambda>acc kv. AList.update (fst kv) (snd kv) acc) d items"

definition py_dict :: "('k \<times> 'v) list \<Rightarrow> ('k, 'v) dict" where
  \<comment> \<open>a dictionary comprehension, or a dictionary display, over the items in order\<close>
  "py_dict items = dict_merge [] items"

subsection \<open>\<open>itertools.groupby\<close>\<close>

text \<open>Each run of neighbours with the same key is one group, in order.\<close>

function groupby :: "('a \<Rightarrow> 'k) \<Rightarrow> 'a list \<Rightarrow> ('k \<times> 'a list) list" where
  "groupby f [] = []"
| "groupby f (x # xs) =
     (f x, x # takeWhile (\<lambda>y. f y = f x) xs) # groupby f (dropWhile (\<lambda>y. f y = f x) xs)"
  by pat_completeness auto
termination
  by (relation "measure (\<lambda>(f, xs). length xs)") (auto simp: length_dropWhile_le less_Suc_eq_le)

section \<open>The configuration decoder \<open>normalise_environment\<close>\<close>

text \<open>
  The decoded configuration: a leaf string, a list, or a dictionary.
\<close>

datatype tree =
    Leaf string
  | Seq "tree list"
  | Dict "(string \<times> tree) list"

definition separator :: string where
  "separator = ''__''"

definition get_first_component :: "string \<Rightarrow> string" where
  \<comment> \<open>\<open>key.split(separator)[0]\<close>; the split is never empty\<close>
  "get_first_component key = hd (py_split separator key)"

definition get_later_components :: "string \<Rightarrow> string" where
  "get_later_components key = py_join separator (tl (py_split separator key))"

definition without_more_components :: "(string \<times> string) list \<Rightarrow> (string, tree) dict" where
  "without_more_components key_values =
     py_dict (map (\<lambda>(key, value). (key, Leaf value))
       (filter (\<lambda>(key, value). get_later_components key = []) key_values))"

definition with_more_components :: "(string \<times> string) list \<Rightarrow> (string, string) dict" where
  "with_more_components key_values =
     py_dict (filter (\<lambda>(key, value). get_later_components key \<noteq> []) key_values)"

definition by_first_component :: "string \<times> 'v \<Rightarrow> string" where
  "by_first_component item = get_first_component (fst item)"

definition grouped_by_first_component ::
  "(string \<times> 'v) list \<Rightarrow> (string \<times> (string \<times> 'v) list) list" where
  "grouped_by_first_component items =
     groupby by_first_component (sort_key by_first_component items)"

definition items_with_first_component ::
  "(string \<times> 'v) list \<Rightarrow> string \<Rightarrow> (string, 'v) dict" where
  "items_with_first_component items first_component =
     py_dict (map (\<lambda>(key, value). (get_later_components key, value))
       (filter (\<lambda>(key, value). get_first_component key = first_component) items))"

definition is_int :: "string \<Rightarrow> bool" where
  "is_int string = (py_int string \<noteq> None)"

definition all_keys_are_ints :: "(string, 'v) dict \<Rightarrow> bool" where
  "all_keys_are_ints nested = list_all (\<lambda>(key, value). is_int key) nested"

definition int_key :: "string \<times> 'v \<Rightarrow> int" where
  \<comment> \<open>the sort key \<open>int(key_value[0])\<close>; only evaluated when every key is an integer\<close>
  "int_key key_value = the (py_int (fst key_value))"

definition list_sorted_by_int_key :: "(string, 'v) dict \<Rightarrow> 'v list" where
  "list_sorted_by_int_key nested = map snd (sort_key int_key nested)"

text \<open>
  The measure of the recursion: the longest key, counted with one more than its length.
\<close>

definition key_size :: "(string \<times> 'v) list \<Rightarrow> nat" where
  "key_size key_values = Max (insert 0 ((\<lambda>kv. Suc (length (fst kv))) ` set key_values))"

subsection \<open>The recursion of the decoder ends\<close>

text \<open>
  Every key handed to a recursive call is the remainder of a key of the current call
  behind its first separator, so it is shorter.
\<close>

lemma py_split_not_Nil: "py_split sep s \<noteq> []"
  by (induction sep s rule: py_split.induct) (auto split: list.splits)

lemma py_join_split: "py_join sep (py_split sep s) = s"
proof (induction sep s rule: py_split.induct)
  case (1 sep)
  then show ?case by simp
next
  case (2 sep c cs)
  show ?case
  proof (cases "sep \<noteq> [] \<and> take (length sep) (c # cs) = sep")
    case True
    have ih: "py_join sep (py_split sep (drop (length sep) (c # cs))) = drop (length sep) (c # cs)"
      by (rule "2.IH"(1) [OF True])
    obtain w ws where ws: "py_split sep (drop (length sep) (c # cs)) = w # ws"
      using py_split_not_Nil by (cases "py_split sep (drop (length sep) (c # cs))") blast+
    have unfold: "py_split sep (c # cs) = [] # py_split sep (drop (length sep) (c # cs))"
      by (subst py_split.simps) (rule if_P [OF True])
    have "py_join sep ([] # w # ws) = sep @ py_join sep (w # ws)" by simp
    also have "\<dots> = take (length sep) (c # cs) @ drop (length sep) (c # cs)"
      using True ih ws by (simp only:)
    also have "\<dots> = c # cs" by (rule append_take_drop_id)
    finally show ?thesis by (simp only: unfold ws)
  next
    case False
    have ih: "py_join sep (py_split sep cs) = cs"
      by (rule "2.IH"(2) [OF False])
    obtain w ws where ws: "py_split sep cs = w # ws"
      using py_split_not_Nil by (cases "py_split sep cs") blast+
    have unfold: "py_split sep (c # cs) = (c # w) # ws"
      by (subst py_split.simps) (simp only: if_not_P [OF False] ws list.case)
    have "py_join sep ((c # w) # ws) = c # py_join sep (w # ws)"
      by (cases ws) simp_all
    then show ?thesis by (simp only: unfold ih [unfolded ws])
  qed
qed

lemma later_components_shorter:
  assumes "get_later_components key \<noteq> []"
  shows "length (get_later_components key) < length key"
proof -
  obtain w ws where ws: "py_split separator key = w # ws"
    using py_split_not_Nil by (cases "py_split separator key") auto
  from assms ws have "ws \<noteq> []" by (auto simp: get_later_components_def)
  then obtain v vs where vs: "ws = v # vs" by (cases ws) auto
  have "key = py_join separator (w # v # vs)"
    using py_join_split [of separator key] ws vs by simp
  then have "key = w @ separator @ get_later_components key"
    using ws vs by (simp add: get_later_components_def)
  then have "length key = length w + length separator + length (get_later_components key)"
    by (metis length_append add.assoc)
  then show ?thesis by (simp add: separator_def)
qed

lemma keys_dict_merge: "fst ` set (dict_merge d items) = fst ` set d \<union> fst ` set items"
  unfolding dict_merge_def
  by (induction items arbitrary: d) (auto simp: dom_update)

lemma keys_py_dict: "fst ` set (py_dict items) = fst ` set items"
  by (simp add: py_dict_def keys_dict_merge)

lemma groupby_subset: "g \<in> set (groupby f xs) \<Longrightarrow> set (snd g) \<subseteq> set xs"
proof (induction f xs rule: groupby.induct)
  case (1 f)
  then show ?case by simp
next
  case (2 f x xs)
  then show ?case
    by (auto dest: set_takeWhileD set_dropWhileD)
qed

lemma key_size_ge: "kv \<in> set key_values \<Longrightarrow> Suc (length (fst kv)) \<le> key_size key_values"
  unfolding key_size_def by (rule Max_ge) simp_all

lemma key_size_less:
  assumes ne: "key_values \<noteq> []"
    and sh: "\<And>k'. k' \<in> fst ` set sub \<Longrightarrow> \<exists>k \<in> fst ` set key_values. length k' < length k"
  shows "key_size sub < key_size key_values"
proof -
  have pos: "0 < key_size key_values"
  proof -
    from ne obtain kv where "kv \<in> set key_values" by (cases key_values) auto
    from key_size_ge [OF this] show ?thesis by simp
  qed
  have each: "Suc (length (fst kv')) < key_size key_values" if "kv' \<in> set sub" for kv'
  proof -
    from that have "fst kv' \<in> fst ` set sub" by (rule imageI)
    from sh [OF this] obtain kv where kv: "kv \<in> set key_values" "length (fst kv') < length (fst kv)"
      by blast
    from key_size_ge [OF kv(1)] kv(2) show ?thesis by simp
  qed
  have "Max (insert 0 ((\<lambda>kv. Suc (length (fst kv))) ` set sub)) < key_size key_values"
  proof (subst Max_less_iff)
    show "finite (insert 0 ((\<lambda>kv. Suc (length (fst kv))) ` set sub))" by simp
    show "insert 0 ((\<lambda>kv. Suc (length (fst kv))) ` set sub) \<noteq> {}" by simp
    show "\<forall>a \<in> insert 0 ((\<lambda>kv. Suc (length (fst kv))) ` set sub). a < key_size key_values"
      using pos each by blast
  qed
  then show ?thesis by (simp only: key_size_def [of sub])
qed

lemma recursion_smaller:
  assumes "g \<in> set (grouped_by_first_component (with_more_components key_values))"
  shows "key_size (items_with_first_component (snd g) (fst g)) < key_size key_values"
proof (rule key_size_less)
  from assms have "with_more_components key_values \<noteq> []"
    by (auto simp: grouped_by_first_component_def)
  then show "key_values \<noteq> []"
    by (auto simp: with_more_components_def py_dict_def dict_merge_def)
next
  have sub: "set (snd g) \<subseteq> set (with_more_components key_values)"
    using groupby_subset [OF assms [unfolded grouped_by_first_component_def]] by simp
  show "\<exists>k \<in> fst ` set key_values. length k' < length k"
    if "k' \<in> fst ` set (items_with_first_component (snd g) (fst g))" for k'
  proof -
    from that obtain k v where kv: "(k, v) \<in> set (snd g)" "k' = get_later_components k"
      by (auto simp: items_with_first_component_def keys_py_dict)
    with sub have "k \<in> fst ` set (with_more_components key_values)" by force
    then have k: "k \<in> fst ` set key_values" "get_later_components k \<noteq> []"
      by (auto simp: with_more_components_def keys_py_dict)
    with kv later_components_shorter show "\<exists>k \<in> fst ` set key_values. length k' < length k"
      by blast
  qed
qed

function normalise_environment :: "(string \<times> string) list \<Rightarrow> tree" where
  "normalise_environment key_values =
     (let nested_structured_dict =
            dict_merge (without_more_components key_values)
              (py_dict (map (\<lambda>g. (fst g,
                   normalise_environment (items_with_first_component (snd g) (fst g))))
                 (grouped_by_first_component (with_more_components key_values))))
      in if all_keys_are_ints nested_structured_dict
         then Seq (list_sorted_by_int_key nested_structured_dict)
         else Dict nested_structured_dict)"
  by pat_completeness auto
termination
  by (relation "measure key_size") (auto simp: recursion_smaller)

declare normalise_environment.simps [simp del]

definition nested_structured_dict :: "(string \<times> string) list \<Rightarrow> (string, tree) dict" where
  \<comment> \<open>the local \<open>nested_structured_dict\<close> of a call of the decoder\<close>
  "nested_structured_dict key_values =
     dict_merge (without_more_components key_values)
       (py_dict (map (\<lambda>g. (fst g,
            normalise_environment (items_with_first_component (snd g) (fst g))))
          (grouped_by_first_component (with_more_components key_values))))"




section \<open>The HTTP handlers of \<open>mbtiles_s3_server\<close>\<close>

subsection \<open>Responses, requests and what the handlers close over\<close>

text \<open>
  A response is the keyword arguments given to Flask's \<open>Response\<close>; an argument that is
  not given is \<open>None\<close>, or the empty list of headers.
\<close>

record http_response =
  status :: nat
  response :: "bytes option"
  headers :: "(string \<times> string) list"
  content_type :: "string option"

definition Response :: "nat \<Rightarrow> http_response" where
  \<comment> \<open>\<open>Response(status=...)\<close> with no other argument\<close>
  "Response st = \<lparr>status = st, response = None, headers = [], content_type = None\<rparr>"

text \<open>
  Of the request a handler reads the query arguments, where a key that occurs several
  times gives its first value, and the root URL.
\<close>

record request =
  args :: "(string \<times> string) list"
  url_root :: string

text \<open>
  The dictionaries built once by \<open>mbtiles_s3_server\<close>. An entry of \<open>mbtiles_dict\<close> is the
  decoded dictionary of one archive, stored under its identifier and version.
\<close>

record server =
  mbtiles_dict :: "string \<times> string \<rightharpoonup> (string, tree) dict"
  styles_dict :: "string \<times> string \<times> string \<rightharpoonup> bytes"
  fonts_dict :: "string \<times> string \<rightharpoonup> string"

text \<open>
  JSON values as \<open>json.loads\<close> gives them. Floating-point numbers are not computed with
  and stay opaque.
\<close>

typedecl pyfloat

datatype json =
    JNull
  | JBool bool
  | JInt int
  | JFloat pyfloat
  | JString string
  | JArray "json list"
  | JObject "(string \<times> json) list"

text \<open>
  What the server calls and does not implement: the query against a remote archive, which
  gives the rows of the \<open>tile_data\<close> column (\<open>None\<close> is SQL's \<open>NULL\<close>) or fails; reading
  a file; the JSON parser and printer.
\<close>

type_synonym row = "bytes option list"

type_synonym query = "tree \<times> string \<times> (int \<times> int \<times> int)"

record world =
  sqlite_s3_query :: "tree \<Rightarrow> string \<Rightarrow> int \<times> int \<times> int \<Rightarrow> exn + row list"
  read_file :: "string \<Rightarrow> exn + bytes"
  json_loads :: "bytes \<Rightarrow> exn + json"
  json_dumps :: "json \<Rightarrow> bytes"

definition flask_response :: "exn + http_response \<Rightarrow> http_response" where
  \<comment> \<open>Flask answers an exception that leaves a view function with status 500\<close>
  "flask_response r = (case r of Inl e \<Rightarrow> Response 500 | Inr resp \<Rightarrow> resp)"

subsection \<open>\<open>get_tile\<close>\<close>

definition sql :: string where
  \<comment> \<open>the statement of the source, with its line breaks and indentation as single spaces\<close>
  "sql = ''SELECT tile_data FROM tiles WHERE zoom_level=? AND tile_column=? AND tile_row=? LIMIT 1''"

definition y_tms :: "nat \<Rightarrow> int \<Rightarrow> int" where
  \<comment> \<open>\<open>(2**z - 1) - y\<close>; the route only lets a zoom level without sign through\<close>
  "y_tms z y = (2 ^ z - 1) - y"

fun tile_data_loop :: "bytes option \<Rightarrow> row list \<Rightarrow> exn + bytes option" where
  \<comment> \<open>\<open>for row in rows: tile_data = row[0]\<close>\<close>
  "tile_data_loop tile_data [] = Inr tile_data"
| "tile_data_loop tile_data (row # rows) =
     (case row of
        [] \<Rightarrow> Inl IndexError
      | v # _ \<Rightarrow> tile_data_loop v rows)"

text \<open>
  The handler gives the queries it has issued, in order, and either its response or the
  exception that leaves it.
\<close>

definition get_tile ::
  "server \<Rightarrow> world \<Rightarrow> string \<Rightarrow> string \<Rightarrow> nat \<Rightarrow> nat \<Rightarrow> nat \<Rightarrow> query list \<times> (exn + http_response)" where
  "get_tile srv w identifier version z x y =
     (case (case mbtiles_dict srv (identifier, version) of
              None \<Rightarrow> None
            | Some mbtile \<Rightarrow> map_of mbtile ''URL'') of
        None \<Rightarrow> ([], Inr (Response 404))
      | Some mbtiles_url \<Rightarrow>
          (let params = (int z, int x, y_tms z (int y));
               issued = [(mbtiles_url, sql, params)]
           in case sqlite_s3_query w mbtiles_url sql params of
                Inl e \<Rightarrow> (issued, Inl e)
              | Inr rows \<Rightarrow>
                  (case tile_data_loop None rows of
                     Inl e \<Rightarrow> (issued, Inl e)
                   | Inr None \<Rightarrow> (issued, Inr (Response 404))
                   | Inr (Some tile_data) \<Rightarrow>
                       (issued, Inr \<lparr>status = 200, response = Some tile_data,
                          headers = [(''content-encoding'', ''gzip''),
                                     (''content-type'', ''application/vnd.mapbox-vector-tile'')],
                          content_type = None\<rparr>))))"

subsection \<open>\<open>get_styles\<close>\<close>

definition unpack2 :: "string list \<Rightarrow> exn + string \<times> string" where
  \<comment> \<open>\<open>a, b = parts\<close> raises \<open>ValueError\<close> unless there are exactly two parts\<close>
  "unpack2 parts = (case parts of [a, b] \<Rightarrow> Inr (a, b) | _ \<Rightarrow> Inl ValueError)"

fun getitem :: "json \<Rightarrow> string \<Rightarrow> exn + json" where
  \<comment> \<open>\<open>value[key]\<close> with a string key: only a dictionary takes one\<close>
  "getitem (JObject items) key =
     (case map_of items key of None \<Rightarrow> Inl KeyError | Some v \<Rightarrow> Inr v)"
| "getitem _ key = Inl TypeError"

fun setitem :: "json \<Rightarrow> string \<Rightarrow> json \<Rightarrow> exn + json" where
  \<comment> \<open>\<open>value[key] = v\<close> with a string key\<close>
  "setitem (JObject items) key v = Inr (JObject (AList.update key v items))"
| "setitem _ key v = Inl TypeError"

definition openmaptiles_source :: "request \<Rightarrow> string \<Rightarrow> json" where
  "openmaptiles_source req tiles_identifier_with_version =
     JObject [(''type'', JString ''vector''),
              (''tiles'', JArray [JString (url_root req @ ''v1/tiles/'' @
                 tiles_identifier_with_version @ ''/{z}/{x}/{y}.mvt'')])]"

definition glyphs_url :: "request \<Rightarrow> string \<Rightarrow> json" where
  "glyphs_url req fonts_identifier_with_version =
     JString (url_root req @ ''v1/fonts/'' @ fonts_identifier_with_version @
       ''/{fontstack}/{range}.pbf'')"

definition compose_style :: "world \<Rightarrow> request \<Rightarrow> bytes \<Rightarrow> string \<Rightarrow> string \<Rightarrow> exn + json" where
  \<comment> \<open>lines 162 to 170: the template is parsed, then changed in two places; the
      dictionary under \<open>sources\<close> is changed where it stands\<close>
  "compose_style w req style_bytes tiles_identifier_with_version fonts_identifier_with_version =
     (case json_loads w style_bytes of
        Inl e \<Rightarrow> Inl e
      | Inr style_dict \<Rightarrow>
          (case getitem style_dict ''sources'' of
             Inl e \<Rightarrow> Inl e
           | Inr sources \<Rightarrow>
               (case setitem sources ''openmaptiles''
                       (openmaptiles_source req tiles_identifier_with_version) of
                  Inl e \<Rightarrow> Inl e
                | Inr sources' \<Rightarrow>
                    (case setitem style_dict ''sources'' sources' of
                       Inl e \<Rightarrow> Inl e
                     | Inr style_dict' \<Rightarrow>
                         setitem style_dict' ''glyphs''
                           (glyphs_url req fonts_identifier_with_version)))))"

definition get_styles ::
  "server \<Rightarrow> world \<Rightarrow> request \<Rightarrow> string \<Rightarrow> string \<Rightarrow> string \<Rightarrow> exn + http_response" where
  "get_styles srv w req identifier version file =
     (case styles_dict srv (identifier, version, file) of
        None \<Rightarrow> Inr (Response 404)
      | Some style_bytes \<Rightarrow>
     (case map_of (args req) ''tiles'' of
        None \<Rightarrow> Inr (Response 400)
      | Some tiles_identifier_with_version \<Rightarrow>
     (case unpack2 (py_split ''@'' tiles_identifier_with_version) of
        Inl e \<Rightarrow> Inr (Response 400)
      | Inr (tiles_identifier, tiles_version) \<Rightarrow>
     (case mbtiles_dict srv (tiles_identifier, tiles_version) of
        None \<Rightarrow> Inr (Response 404)
      | Some mbtile \<Rightarrow>
     (case map_of (args req) ''fonts'' of
        None \<Rightarrow> Inr (Response 400)
      | Some fonts_identifier_with_version \<Rightarrow>
     (case unpack2 (py_split ''@'' fonts_identifier_with_version) of
        Inl e \<Rightarrow> Inr (Response 400)
      | Inr (fonts_identifier, fonts_version) \<Rightarrow>
     (case fonts_dict srv (fonts_identifier, fonts_version) of
        None \<Rightarrow> Inr (Response 404)
      | Some font_path \<Rightarrow>
     (case compose_style w req style_bytes tiles_identifier_with_version
             fonts_identifier_with_version of
        Inl e \<Rightarrow> Inl e
      | Inr style_dict \<Rightarrow>
          Inr \<lparr>status = 200, response = Some (json_dumps w style_dict), headers = [],
               content_type = Some ''application/json''\<rparr>))))))))"

subsection \<open>\<open>get_fonts\<close>\<close>

definition path_join2 :: "string \<Rightarrow> string \<Rightarrow> string" where
  \<comment> \<open>one step of \<open>os.path.join\<close>: a part that starts with a slash replaces the path\<close>
  "path_join2 path b =
     (if take 1 b = ''/'' then b
      else if path = [] \<or> last path = CHR ''/'' then path @ b
      else path @ ''/'' @ b)"

definition os_path_join :: "string \<Rightarrow> string list \<Rightarrow> string" where
  "os_path_join a p = foldl path_join2 a p"

fun read_all :: "world \<Rightarrow> string list \<Rightarrow> exn + bytes list" where
  \<comment> \<open>the files are read in order; the first failure ends the reading\<close>
  "read_all w [] = Inr []"
| "read_all w (path # paths) =
     (case read_file w path of
        Inl e \<Rightarrow> Inl e
      | Inr font_bytes \<Rightarrow>
          (case read_all w paths of
             Inl e \<Rightarrow> Inl e
           | Inr rest \<Rightarrow> Inr (font_bytes # rest)))"

definition get_fonts ::
  "server \<Rightarrow> world \<Rightarrow> string \<Rightarrow> string \<Rightarrow> string \<Rightarrow> string \<Rightarrow> exn + http_response" where
  "get_fonts srv w identifier version stack range' =
     (case fonts_dict srv (identifier, version) of
        None \<Rightarrow> Inr (Response 404)
      | Some font_path \<Rightarrow>
          if CHR ''.'' \<in> set stack \<or> CHR ''.'' \<in> set range' then Inr (Response 404)
          else
            (let stack = hd (py_split ''.'' stack)
             in case read_all w
                  (map (\<lambda>font. os_path_join font_path [font, range' @ ''.pbf.gz''])
                     (py_split '','' stack)) of
                  Inl e \<Rightarrow> (if e = FileNotFoundError then Inr (Response 404) else Inl e)
                | Inr chunks \<Rightarrow>
                    Inr \<lparr>status = 200, response = Some (concat chunks),
                         headers = [(''content-encoding'', ''gzip'')],
                         content_type = None\<rparr>))"

section \<open>An example deployment\<close>

text \<open>
  One catalogue and one outside world, at which the statements below are evaluated: an
  archive \<open>counties@1\<close>, an entry \<open>nourl@1\<close> that was configured without a \<open>URL\<close>, the
  bundled style, and a font collection with the glyphs of two fonts.
\<close>

definition example_template :: json where
  "example_template =
     JObject [(''version'', JInt 8),
              (''name'', JString ''Positron''),
              (''sources'', JObject [(''openmaptiles'', JObject [(''type'', JString ''vector''),
                                       (''url'', JString ''https://example.invalid/tiles.json'')]),
                                    (''other'', JObject [(''type'', JString ''raster'')])]),
              (''glyphs'', JString ''https://example.invalid/{fontstack}/{range}.pbf''),
              (''layers'', JArray [])]"

definition example_server :: server where
  "example_server =
     \<lparr>mbtiles_dict = map_of
        [((''counties'', ''1''),
            [(''IDENTIFIER'', Leaf ''counties''), (''VERSION'', Leaf ''1''),
             (''URL'', Leaf ''https://bucket.example/counties.mbtiles'')]),
         ((''nourl'', ''1''),
            [(''IDENTIFIER'', Leaf ''nourl''), (''VERSION'', Leaf ''1'')])],
      styles_dict = map_of
        [((''positron-gl-style'', ''1.8'', ''style.json''), ''template'')],
      fonts_dict = map_of
        [((''fonts-gl'', ''2.0''), ''/tmp/fonts'')]\<rparr>"

definition example_world :: world where
  "example_world =
     \<lparr>sqlite_s3_query = (\<lambda>url statement params.
         if params = (3, 2, 5) then Inr [[Some ''tile'']]
         else if params = (0, 0, 0) then Inr [[None]]
         else if params = (1, 0, 1) then Inr [[None]]
         else if params = (1, 1, 1) then Inl (UpstreamError ''connection refused'')
         else Inr []),
      read_file = (\<lambda>path.
         if path = ''/tmp/fonts/A/0-255.pbf.gz'' then Inr ''a''
         else if path = ''/tmp/fonts/B/0-255.pbf.gz'' then Inr ''b''
         else Inl FileNotFoundError),
      json_loads = (\<lambda>text. if text = ''template'' then Inr example_template else Inl ValueError),
      json_dumps = (\<lambda>document. ''{}'')\<rparr>"

definition request_with :: "(string \<times> string) list \<Rightarrow> request" where
  "request_with query_args = \<lparr>args = query_args, url_root = ''http://localhost:8080/''\<rparr>"


definition example_style_request :: request where
  "example_style_request = request_with [(''tiles'', ''counties@1''), (''fonts'', ''fonts-gl@2.0'')]"

definition example_style_response :: http_response where
  "example_style_response =
     \<lparr>status = 200, response = Some ''{}'', headers = [],
        content_type = Some ''application/json''\<rparr>"

lemmas decoder_defs = without_more_components_def with_more_components_def
  grouped_by_first_component_def items_with_first_component_def all_keys_are_ints_def
  list_sorted_by_int_key_def int_key_def is_int_def py_dict_def dict_merge_def
  get_first_component_def get_later_components_def separator_def by_first_component_def
  py_int_def py_strip_def parse_unsigned_def is_space_def is_digit_def digit_value_def

section \<open>The tile row transform\<close>

text \<open>
  Claim C6. For every zoom level \<open>z\<close> and every row \<open>y\<close> with \<open>0 \<le> y < 2^z\<close>, the
  transform \<open>y \<mapsto> 2^z - 1 - y\<close> of \<open>get_tile\<close> applied twice gives \<open>y\<close> back; its
  result is again a row of that zoom level, so that it can be applied a second time.
\<close>

theorem y_tms_involution:
  "0 \<le> y \<Longrightarrow> y < 2 ^ z \<Longrightarrow>
     y_tms z (y_tms z y) = y \<and> 0 \<le> y_tms z y \<and> y_tms z y < 2 ^ z"
  by (simp add: y_tms_def)

theorem y_tms_involution_witness:
  "(0::int) \<le> 2 \<and> (2::int) < 2 ^ 3 \<and> y_tms 3 2 = 5 \<and> y_tms 3 (y_tms 3 2) = 2"
  using y_tms_involution [of 2 3] by (simp add: y_tms_def)

section \<open>The tile handler\<close>

lemma sql_limit_one: "\<exists>statement. sql = statement @ '' LIMIT 1''"
  unfolding sql_def
  by (rule exI [of _ "''SELECT tile_data FROM tiles WHERE zoom_level=? AND tile_column=? AND tile_row=?''"]) simp

lemma tile_data_loop_last:
  "tile_data_loop tile_data rows = Inr v \<Longrightarrow>
     (rows = [] \<and> v = tile_data) \<or> (\<exists>rest. last rows = v # rest)"
  by (induction rows arbitrary: tile_data) (auto split: list.splits)

lemma example_counties:
  "mbtiles_dict example_server (''counties'', ''1'') =
     Some [(''IDENTIFIER'', Leaf ''counties''), (''VERSION'', Leaf ''1''),
           (''URL'', Leaf ''https://bucket.example/counties.mbtiles'')]"
  by (simp add: example_server_def)

lemma example_counties_url:
  "map_of [(''IDENTIFIER'', Leaf ''counties''), (''VERSION'', Leaf ''1''),
           (''URL'', Leaf ''https://bucket.example/counties.mbtiles'')] ''URL'' =
     Some (Leaf ''https://bucket.example/counties.mbtiles'')"
  by simp

text \<open>
  Claim C1, as the code has it. For every tile request whose identifier and version are
  in the catalogue with a \<open>URL\<close>, the handler issues exactly one read, with the statement
  that ends in \<open>LIMIT 1\<close> and the parameters \<open>(z, x, 2^z - 1 - y)\<close>. If the read gives one
  row whose tile data is not \<open>NULL\<close>, the response is 200 with these bytes, the content
  encoding gzip and the media type of vector tiles; if it gives no row, or one row whose
  tile data is \<open>NULL\<close>, the response is 404.
\<close>

theorem get_tile_read_and_response:
  assumes "mbtiles_dict srv (identifier, version) = Some mbtile"
    and "map_of mbtile ''URL'' = Some mbtiles_url"
  shows "fst (get_tile srv w identifier version z x y) =
           [(mbtiles_url, sql, (int z, int x, 2 ^ z - 1 - int y))] \<and>
         (\<exists>statement. sql = statement @ '' LIMIT 1'') \<and>
         (\<forall>tile_data rest.
            sqlite_s3_query w mbtiles_url sql (int z, int x, 2 ^ z - 1 - int y) =
              Inr [Some tile_data # rest] \<longrightarrow>
            snd (get_tile srv w identifier version z x y) =
              Inr \<lparr>status = 200, response = Some tile_data,
                   headers = [(''content-encoding'', ''gzip''),
                              (''content-type'', ''application/vnd.mapbox-vector-tile'')],
                   content_type = None\<rparr>) \<and>
         (sqlite_s3_query w mbtiles_url sql (int z, int x, 2 ^ z - 1 - int y) = Inr [] \<longrightarrow>
            snd (get_tile srv w identifier version z x y) = Inr (Response 404)) \<and>
         (\<forall>rest.
            sqlite_s3_query w mbtiles_url sql (int z, int x, 2 ^ z - 1 - int y) =
              Inr [None # rest] \<longrightarrow>
            snd (get_tile srv w identifier version z x y) = Inr (Response 404))"
proof (intro conjI allI impI)
  show "fst (get_tile srv w identifier version z x y) =
           [(mbtiles_url, sql, (int z, int x, 2 ^ z - 1 - int y))]"
    using assms
    by (simp add: get_tile_def y_tms_def Let_def split: sum.splits option.splits)
  show "\<exists>statement. sql = statement @ '' LIMIT 1''" by (rule sql_limit_one)
next
  fix tile_data rest
  assume "sqlite_s3_query w mbtiles_url sql (int z, int x, 2 ^ z - 1 - int y) =
              Inr [Some tile_data # rest]"
  with assms show "snd (get_tile srv w identifier version z x y) =
              Inr \<lparr>status = 200, response = Some tile_data,
                   headers = [(''content-encoding'', ''gzip''),
                              (''content-type'', ''application/vnd.mapbox-vector-tile'')],
                   content_type = None\<rparr>"
    by (simp add: get_tile_def y_tms_def)
next
  assume "sqlite_s3_query w mbtiles_url sql (int z, int x, 2 ^ z - 1 - int y) = Inr []"
  with assms show "snd (get_tile srv w identifier version z x y) = Inr (Response 404)"
    by (simp add: get_tile_def y_tms_def)
next
  fix rest
  assume "sqlite_s3_query w mbtiles_url sql (int z, int x, 2 ^ z - 1 - int y) =
              Inr [None # rest]"
  with assms show "snd (get_tile srv w identifier version z x y) = Inr (Response 404)"
    by (simp add: get_tile_def y_tms_def)
qed

theorem get_tile_read_and_response_witness:
  "get_tile example_server example_world ''counties'' ''1'' 3 2 2 =
     ([(Leaf ''https://bucket.example/counties.mbtiles'', sql, (3, 2, 5))],
      Inr \<lparr>status = 200, response = Some ''tile'',
           headers = [(''content-encoding'', ''gzip''),
                      (''content-type'', ''application/vnd.mapbox-vector-tile'')],
           content_type = None\<rparr>) \<and>
   get_tile example_server example_world ''counties'' ''1'' 2 0 0 =
     ([(Leaf ''https://bucket.example/counties.mbtiles'', sql, (2, 0, 3))],
      Inr (Response 404)) \<and>
   get_tile example_server example_world ''counties'' ''1'' 0 0 0 =
     ([(Leaf ''https://bucket.example/counties.mbtiles'', sql, (0, 0, 0))],
      Inr (Response 404))"
proof -
  note t = get_tile_read_and_response [OF example_counties example_counties_url,
      of example_world]
  have q3: "sqlite_s3_query example_world (Leaf ''https://bucket.example/counties.mbtiles'')
      sql (int 0, int 0, 2 ^ 0 - 1 - int 0) = Inr [[None]]"
    by (simp add: example_world_def)
  have 3: "get_tile example_server example_world ''counties'' ''1'' 0 0 0 =
     ([(Leaf ''https://bucket.example/counties.mbtiles'', sql, (0, 0, 0))],
      Inr (Response 404))"
    using t [of 0 0 0] q3 by (simp add: prod_eq_iff)
  have q1: "sqlite_s3_query example_world (Leaf ''https://bucket.example/counties.mbtiles'')
      sql (int 3, int 2, 2 ^ 3 - 1 - int 2) = Inr [[Some ''tile'']]"
    by (simp add: example_world_def)
  have q2: "sqlite_s3_query example_world (Leaf ''https://bucket.example/counties.mbtiles'')
      sql (int 2, int 0, 2 ^ 2 - 1 - int 0) = Inr []"
    by (simp add: example_world_def)
  have 1: "get_tile example_server example_world ''counties'' ''1'' 3 2 2 =
     ([(Leaf ''https://bucket.example/counties.mbtiles'', sql, (3, 2, 5))],
      Inr \<lparr>status = 200, response = Some ''tile'',
           headers = [(''content-encoding'', ''gzip''),
                      (''content-type'', ''application/vnd.mapbox-vector-tile'')],
           content_type = None\<rparr>)"
    using t [of 3 2 2] q1 by (simp add: prod_eq_iff)
  have 2: "get_tile example_server example_world ''counties'' ''1'' 2 0 0 =
     ([(Leaf ''https://bucket.example/counties.mbtiles'', sql, (2, 0, 3))],
      Inr (Response 404))"
    using t [of 2 0 0] q2 by (simp add: prod_eq_iff)
  from 1 2 3 show ?thesis by (intro conjI)
qed

text \<open>
  Claim C1 as it is written fails twice. The entry \<open>nourl@1\<close> is in the catalogue, and no
  read is issued for it: the lookup of its \<open>URL\<close> raises the \<open>KeyError\<close> that the handler
  answers with 404. And for \<open>counties@1\<close> a row is returned whose tile data is \<open>NULL\<close>;
  the response is 404, not 200.
\<close>

theorem get_tile_counterexample:
  "mbtiles_dict example_server (''nourl'', ''1'') \<noteq> None \<and>
   get_tile example_server example_world ''nourl'' ''1'' 0 0 0 = ([], Inr (Response 404)) \<and>
   mbtiles_dict example_server (''counties'', ''1'') \<noteq> None \<and>
   sqlite_s3_query example_world (Leaf ''https://bucket.example/counties.mbtiles'') sql (0, 0, 0) =
     Inr [[None]] \<and>
   get_tile example_server example_world ''counties'' ''1'' 0 0 0 =
     ([(Leaf ''https://bucket.example/counties.mbtiles'', sql, (0, 0, 0))], Inr (Response 404))"
  by (simp add: get_tile_def example_server_def example_world_def y_tms_def)

text \<open>
  Claim C3, as the code has it. When the identifier and version are in the catalogue with
  a \<open>URL\<close> and the read fails, the failure leaves the handler as it is, and Flask answers
  with 500, not 404. The handler answers 404 only when the lookup in the catalogue fails
  (the key is unknown, or its entry has no \<open>URL\<close>) or when the read gives no tile data
  (no row, or \<open>NULL\<close> in the last row).
\<close>

theorem get_tile_upstream_failure:
  "(\<forall>mbtile mbtiles_url e.
      mbtiles_dict srv (identifier, version) = Some mbtile \<and>
      map_of mbtile ''URL'' = Some mbtiles_url \<and>
      sqlite_s3_query w mbtiles_url sql (int z, int x, 2 ^ z - 1 - int y) = Inl e \<longrightarrow>
      snd (get_tile srv w identifier version z x y) = Inl e \<and>
      status (flask_response (snd (get_tile srv w identifier version z x y))) = 500) \<and>
   (\<forall>r. snd (get_tile srv w identifier version z x y) = Inr r \<and> status r = 404 \<longrightarrow>
      mbtiles_dict srv (identifier, version) = None \<or>
      (\<exists>mbtile. mbtiles_dict srv (identifier, version) = Some mbtile \<and>
         (map_of mbtile ''URL'' = None \<or>
          (\<exists>mbtiles_url rows.
             map_of mbtile ''URL'' = Some mbtiles_url \<and>
             sqlite_s3_query w mbtiles_url sql (int z, int x, 2 ^ z - 1 - int y) = Inr rows \<and>
             (rows = [] \<or> (\<exists>rest. last rows = None # rest))))))"
proof (intro conjI allI impI)
  fix mbtile mbtiles_url e
  assume a: "mbtiles_dict srv (identifier, version) = Some mbtile \<and>
      map_of mbtile ''URL'' = Some mbtiles_url \<and>
      sqlite_s3_query w mbtiles_url sql (int z, int x, 2 ^ z - 1 - int y) = Inl e"
  then show "snd (get_tile srv w identifier version z x y) = Inl e"
    by (simp add: get_tile_def y_tms_def)
  with a show "status (flask_response (snd (get_tile srv w identifier version z x y))) = 500"
    by (simp add: flask_response_def Response_def)
next
  fix r
  assume a: "snd (get_tile srv w identifier version z x y) = Inr r \<and> status r = 404"
  show "mbtiles_dict srv (identifier, version) = None \<or>
      (\<exists>mbtile. mbtiles_dict srv (identifier, version) = Some mbtile \<and>
         (map_of mbtile ''URL'' = None \<or>
          (\<exists>mbtiles_url rows.
             map_of mbtile ''URL'' = Some mbtiles_url \<and>
             sqlite_s3_query w mbtiles_url sql (int z, int x, 2 ^ z - 1 - int y) = Inr rows \<and>
             (rows = [] \<or> (\<exists>rest. last rows = None # rest)))))"
  proof (cases "mbtiles_dict srv (identifier, version)")
    case None
    then show ?thesis by simp
  next
    case (Some mbtile)
    show ?thesis
    proof (cases "map_of mbtile ''URL''")
      case None
      with Some show ?thesis by simp
    next
      case url: (Some mbtiles_url)
      let ?q = "sqlite_s3_query w mbtiles_url sql (int z, int x, 2 ^ z - 1 - int y)"
      from a Some url obtain rows where rows: "?q = Inr rows"
        by (cases ?q) (auto simp: get_tile_def y_tms_def)
      from a Some url rows have "tile_data_loop None rows = Inr None"
        by (auto simp: get_tile_def y_tms_def Let_def Response_def
            split: sum.splits option.splits)
      from tile_data_loop_last [OF this]
      have "rows = [] \<or> (\<exists>rest. last rows = None # rest)" by blast
      with Some url rows show ?thesis by blast
    qed
  qed
qed

theorem get_tile_upstream_failure_witness:
  "get_tile example_server example_world ''counties'' ''1'' 1 1 0 =
     ([(Leaf ''https://bucket.example/counties.mbtiles'', sql, (1, 1, 1))],
      Inl (UpstreamError ''connection refused'')) \<and>
   status (flask_response (snd (get_tile example_server example_world ''counties'' ''1'' 1 1 0))) = 500 \<and>
   snd (get_tile example_server example_world ''counties'' ''1'' 2 0 0) = Inr (Response 404) \<and>
   sqlite_s3_query example_world (Leaf ''https://bucket.example/counties.mbtiles'') sql (2, 0, 3) =
     Inr []"
proof -
  have q: "sqlite_s3_query example_world (Leaf ''https://bucket.example/counties.mbtiles'')
      sql (int 1, int 1, 2 ^ 1 - 1 - int 0) = Inl (UpstreamError ''connection refused'')"
    by (simp add: example_world_def)
  from get_tile_upstream_failure [of example_server "''counties''" "''1''" example_world 1 1 0]
    example_counties example_counties_url q
  have u: "snd (get_tile example_server example_world ''counties'' ''1'' 1 1 0) =
        Inl (UpstreamError ''connection refused'') \<and>
      status (flask_response (snd (get_tile example_server example_world ''counties'' ''1'' 1 1 0))) = 500"
    by blast
  have f: "fst (get_tile example_server example_world ''counties'' ''1'' 1 1 0) =
      [(Leaf ''https://bucket.example/counties.mbtiles'', sql, (1, 1, 1))]"
    by (simp add: get_tile_def example_server_def example_world_def y_tms_def)
  have n: "snd (get_tile example_server example_world ''counties'' ''1'' 2 0 0) = Inr (Response 404)"
    by (simp add: get_tile_def example_server_def example_world_def y_tms_def)
  have s: "status (Response 404) = 404" by (simp add: Response_def)
  from get_tile_upstream_failure [of example_server "''counties''" "''1''" example_world 2 0 0]
    n s example_counties example_counties_url
  have "\<exists>rows. sqlite_s3_query example_world (Leaf ''https://bucket.example/counties.mbtiles'')
      sql (int 2, int 0, 2 ^ 2 - 1 - int 0) = Inr rows \<and> (rows = [] \<or> (\<exists>rest. last rows = None # rest))"
    by auto
  then have e: "sqlite_s3_query example_world (Leaf ''https://bucket.example/counties.mbtiles'') sql (2, 0, 3) =
     Inr []"
    by (simp add: example_world_def)
  have g: "get_tile example_server example_world ''counties'' ''1'' 1 1 0 =
     ([(Leaf ''https://bucket.example/counties.mbtiles'', sql, (1, 1, 1))],
      Inl (UpstreamError ''connection refused''))"
    using f u [THEN conjunct1]
    by (cases "get_tile example_server example_world ''counties'' ''1'' 1 1 0") simp
  from g u [THEN conjunct2] n e show ?thesis by (intro conjI)
qed

text \<open>
  Claim C3 as it is written fails in its last part: the handler also answers 404 for a
  known key whose read gives a row, when the tile data of the row is \<open>NULL\<close>, and for a
  known key whose entry has no \<open>URL\<close>, without any read.
\<close>

theorem get_tile_not_found_counterexample:
  "mbtiles_dict example_server (''counties'', ''1'') \<noteq> None \<and>
   sqlite_s3_query example_world (Leaf ''https://bucket.example/counties.mbtiles'') sql (1, 0, 1) =
     Inr [[None]] \<and>
   [[None]] \<noteq> ([] :: row list) \<and>
   get_tile example_server example_world ''counties'' ''1'' 1 0 0 =
     ([(Leaf ''https://bucket.example/counties.mbtiles'', sql, (1, 0, 1))], Inr (Response 404)) \<and>
   mbtiles_dict example_server (''nourl'', ''1'') \<noteq> None \<and>
   get_tile example_server example_world ''nourl'' ''1'' 1 0 0 = ([], Inr (Response 404))"
  by (simp add: get_tile_def example_server_def example_world_def y_tms_def)

section \<open>The font handler\<close>

text \<open>
  Claim C7. A font request whose stack or whose range contains a dot is answered with
  404, whether the font collection exists or not.
\<close>

theorem get_fonts_dot_not_found:
  "CHR ''.'' \<in> set stack \<or> CHR ''.'' \<in> set range' \<Longrightarrow>
     get_fonts srv w identifier version stack range' = Inr (Response 404)"
  by (simp add: get_fonts_def split: option.splits)

theorem get_fonts_dot_not_found_witness:
  "get_fonts example_server example_world ''fonts-gl'' ''2.0'' ''A'' ''../0-255'' =
     Inr (Response 404) \<and>
   get_fonts example_server example_world ''missing'' ''2.0'' ''A.B'' ''0-255'' =
     Inr (Response 404)"
  using get_fonts_dot_not_found [of "''A''" "''../0-255''" example_server example_world
      "''fonts-gl''" "''2.0''"]
    get_fonts_dot_not_found [of "''A.B''" "''0-255''" example_server example_world
      "''missing''" "''2.0''"]
  by simp

lemma py_split_without_separator: "c \<notin> set s \<Longrightarrow> py_split [c] s = [s]"
  by (induction s) auto

lemma get_fonts_whole_stack:
  assumes "fonts_dict srv (identifier, version) = Some font_path"
    and "CHR ''.'' \<notin> set stack" and "CHR ''.'' \<notin> set range'"
  shows "get_fonts srv w identifier version stack range' =
    (case read_all w
            (map (\<lambda>font. os_path_join font_path [font, range' @ ''.pbf.gz''])
               (py_split '','' stack)) of
       Inl e \<Rightarrow> (if e = FileNotFoundError then Inr (Response 404) else Inl e)
     | Inr chunks \<Rightarrow>
         Inr \<lparr>status = 200, response = Some (concat chunks),
              headers = [(''content-encoding'', ''gzip'')], content_type = None\<rparr>)"
  using assms by (simp add: get_fonts_def py_split_without_separator)

text \<open>
  Claim C5 says that only the first font of the stack is read. The source splits the
  stack at the dot, not at the comma, before it takes the first part; no dot is left in
  the stack there, so the whole stack is kept and every font of it is read: the glyphs of
  \<open>A,B\<close> are those of \<open>A\<close> followed by those of \<open>B\<close>, and \<open>A,C\<close> is not found because \<open>C\<close>
  is missing.
\<close>

theorem get_fonts_reads_whole_stack:
  "get_fonts example_server example_world ''fonts-gl'' ''2.0'' ''A'' ''0-255'' =
     Inr \<lparr>status = 200, response = Some ''a'',
          headers = [(''content-encoding'', ''gzip'')], content_type = None\<rparr> \<and>
   get_fonts example_server example_world ''fonts-gl'' ''2.0'' ''A,B'' ''0-255'' =
     Inr \<lparr>status = 200, response = Some ''ab'',
          headers = [(''content-encoding'', ''gzip'')], content_type = None\<rparr> \<and>
   get_fonts example_server example_world ''fonts-gl'' ''2.0'' ''A,C'' ''0-255'' =
     Inr (Response 404)"
  by (simp add: get_fonts_def example_server_def example_world_def os_path_join_def
      path_join2_def)

section \<open>The style handler\<close>

lemma unpack2_two: "unpack2 [a, b] = Inr (a, b)"
  by (simp add: unpack2_def)

lemma unpack2_length: "length parts \<noteq> 2 \<Longrightarrow> unpack2 parts = Inl ValueError"
  by (auto simp: unpack2_def split: list.splits)


text \<open>
  Claim C2. The checks of a style request are made in a fixed order and the first one
  that fails decides the response: an unknown template gives 404; then a missing \<open>tiles\<close>
  argument gives 400; then a \<open>tiles\<close> value that does not split at \<open>@\<close> into exactly two
  parts gives 400; then a tile source that is not in the catalogue gives 404; then a
  missing \<open>fonts\<close> argument gives 400; then a \<open>fonts\<close> value that does not split into
  exactly two parts gives 400; then a font collection that does not exist gives 404.
  So, once the template is known, a missing or malformed \<open>tiles\<close> argument gives 400
  whatever the \<open>fonts\<close> argument is.
\<close>

theorem get_styles_validation_order:
  "(styles_dict srv (identifier, version, file) = None \<longrightarrow>
      get_styles srv w req identifier version file = Inr (Response 404)) \<and>
   (styles_dict srv (identifier, version, file) \<noteq> None \<longrightarrow>
     (map_of (args req) ''tiles'' = None \<longrightarrow>
        get_styles srv w req identifier version file = Inr (Response 400)) \<and>
     (\<forall>tiles. map_of (args req) ''tiles'' = Some tiles \<longrightarrow>
       (length (py_split ''@'' tiles) \<noteq> 2 \<longrightarrow>
          get_styles srv w req identifier version file = Inr (Response 400)) \<and>
       (\<forall>tiles_identifier tiles_version.
          py_split ''@'' tiles = [tiles_identifier, tiles_version] \<longrightarrow>
          (mbtiles_dict srv (tiles_identifier, tiles_version) = None \<longrightarrow>
             get_styles srv w req identifier version file = Inr (Response 404)) \<and>
          (mbtiles_dict srv (tiles_identifier, tiles_version) \<noteq> None \<longrightarrow>
            (map_of (args req) ''fonts'' = None \<longrightarrow>
               get_styles srv w req identifier version file = Inr (Response 400)) \<and>
            (\<forall>fonts. map_of (args req) ''fonts'' = Some fonts \<longrightarrow>
              (length (py_split ''@'' fonts) \<noteq> 2 \<longrightarrow>
                 get_styles srv w req identifier version file = Inr (Response 400)) \<and>
              (\<forall>fonts_identifier fonts_version.
                 py_split ''@'' fonts = [fonts_identifier, fonts_version] \<longrightarrow>
                 fonts_dict srv (fonts_identifier, fonts_version) = None \<longrightarrow>
                 get_styles srv w req identifier version file = Inr (Response 404)))))))"
  unfolding get_styles_def
  by (auto simp: unpack2_length unpack2_two split: option.splits)

theorem get_styles_validation_order_witness:
  "get_styles example_server example_world (request_with [])
     ''positron-gl-style'' ''1.9'' ''style.json'' = Inr (Response 404) \<and>
   get_styles example_server example_world (request_with [(''fonts'', ''nofonts'')])
     ''positron-gl-style'' ''1.8'' ''style.json'' = Inr (Response 400) \<and>
   get_styles example_server example_world (request_with [(''tiles'', ''counties''), (''fonts'', ''nofonts'')])
     ''positron-gl-style'' ''1.8'' ''style.json'' = Inr (Response 400) \<and>
   get_styles example_server example_world (request_with [(''tiles'', ''counties@2''), (''fonts'', ''nofonts'')])
     ''positron-gl-style'' ''1.8'' ''style.json'' = Inr (Response 404) \<and>
   get_styles example_server example_world (request_with [(''tiles'', ''counties@1'')])
     ''positron-gl-style'' ''1.8'' ''style.json'' = Inr (Response 400) \<and>
   get_styles example_server example_world (request_with [(''tiles'', ''counties@1''), (''fonts'', ''fonts-gl@2@0'')])
     ''positron-gl-style'' ''1.8'' ''style.json'' = Inr (Response 400) \<and>
   get_styles example_server example_world (request_with [(''tiles'', ''counties@1''), (''fonts'', ''fonts-gl@3.0'')])
     ''positron-gl-style'' ''1.8'' ''style.json'' = Inr (Response 404)"
proof -
  note v = get_styles_validation_order [of example_server "''positron-gl-style''" _
      "''style.json''" example_world]
  have 1: "get_styles example_server example_world (request_with [])
     ''positron-gl-style'' ''1.9'' ''style.json'' = Inr (Response 404)"
    using v [of "''1.9''" "request_with []"] by (simp add: example_server_def)
  have 2: "get_styles example_server example_world (request_with [(''fonts'', ''nofonts'')])
     ''positron-gl-style'' ''1.8'' ''style.json'' = Inr (Response 400)"
    using v [of "''1.8''" "request_with [(''fonts'', ''nofonts'')]"]
    by (simp add: example_server_def request_with_def)
  have 3: "get_styles example_server example_world
     (request_with [(''tiles'', ''counties''), (''fonts'', ''nofonts'')])
     ''positron-gl-style'' ''1.8'' ''style.json'' = Inr (Response 400)"
    using v [of "''1.8''" "request_with [(''tiles'', ''counties''), (''fonts'', ''nofonts'')]"]
    by (simp add: example_server_def request_with_def)
  have 4: "get_styles example_server example_world
     (request_with [(''tiles'', ''counties@2''), (''fonts'', ''nofonts'')])
     ''positron-gl-style'' ''1.8'' ''style.json'' = Inr (Response 404)"
    using v [of "''1.8''" "request_with [(''tiles'', ''counties@2''), (''fonts'', ''nofonts'')]"]
    by (simp add: example_server_def request_with_def)
  have 5: "get_styles example_server example_world (request_with [(''tiles'', ''counties@1'')])
     ''positron-gl-style'' ''1.8'' ''style.json'' = Inr (Response 400)"
    using v [of "''1.8''" "request_with [(''tiles'', ''counties@1'')]"]
    by (simp add: example_server_def request_with_def)
  have 6: "get_styles example_server example_world
     (request_with [(''tiles'', ''counties@1''), (''fonts'', ''fonts-gl@2@0'')])
     ''positron-gl-style'' ''1.8'' ''style.json'' = Inr (Response 400)"
    using v [of "''1.8''" "request_with [(''tiles'', ''counties@1''), (''fonts'', ''fonts-gl@2@0'')]"]
    by (simp add: example_server_def request_with_def)
  have 7: "get_styles example_server example_world
     (request_with [(''tiles'', ''counties@1''), (''fonts'', ''fonts-gl@3.0'')])
     ''positron-gl-style'' ''1.8'' ''style.json'' = Inr (Response 404)"
    using v [of "''1.8''" "request_with [(''tiles'', ''counties@1''), (''fonts'', ''fonts-gl@3.0'')]"]
    by (simp add: example_server_def request_with_def)
  from 1 2 3 4 5 6 7 show ?thesis by (simp only: simp_thms)
qed


lemma getitem_Inr:
  "getitem j key = Inr v \<longleftrightarrow> (\<exists>items. j = JObject items \<and> map_of items key = Some v)"
  by (cases j) (auto split: option.splits)

lemma setitem_Inr:
  "setitem j key v = Inr j' \<longleftrightarrow> (\<exists>items. j = JObject items \<and> j' = JObject (AList.update key v items))"
  by (cases j) auto

lemma compose_style_Inr:
  assumes "compose_style w req style_bytes tiles fonts = Inr document"
  shows "\<exists>template sources.
           json_loads w style_bytes = Inr (JObject template) \<and>
           map_of template ''sources'' = Some (JObject sources) \<and>
           document = JObject (AList.update ''glyphs'' (glyphs_url req fonts)
                (AList.update ''sources''
                   (JObject (AList.update ''openmaptiles'' (openmaptiles_source req tiles) sources))
                   template))"
proof -
  from assms obtain style_dict srcs srcs' style_dict' where
    l: "json_loads w style_bytes = Inr style_dict" and
    g: "getitem style_dict ''sources'' = Inr srcs" and
    s1: "setitem srcs ''openmaptiles'' (openmaptiles_source req tiles) = Inr srcs'" and
    s2: "setitem style_dict ''sources'' srcs' = Inr style_dict'" and
    s3: "setitem style_dict' ''glyphs'' (glyphs_url req fonts) = Inr document"
    unfolding compose_style_def by (auto split: sum.splits)
  from g obtain template where t: "style_dict = JObject template"
    "map_of template ''sources'' = Some srcs" unfolding getitem_Inr by blast
  from s1 obtain sources where s: "srcs = JObject sources"
    "srcs' = JObject (AList.update ''openmaptiles'' (openmaptiles_source req tiles) sources)"
    unfolding setitem_Inr by blast
  from s2 t s have "style_dict' = JObject (AList.update ''sources'' srcs' template)"
    by simp
  with s3 s have "document = JObject (AList.update ''glyphs'' (glyphs_url req fonts)
                (AList.update ''sources''
                   (JObject (AList.update ''openmaptiles'' (openmaptiles_source req tiles) sources))
                   template))"
    by simp
  with l t s show ?thesis by blast
qed

lemma get_styles_200:
  assumes "get_styles srv w req identifier version file = Inr r" and "status r = 200"
  shows "\<exists>style_bytes tiles fonts document.
           styles_dict srv (identifier, version, file) = Some style_bytes \<and>
           map_of (args req) ''tiles'' = Some tiles \<and>
           map_of (args req) ''fonts'' = Some fonts \<and>
           compose_style w req style_bytes tiles fonts = Inr document \<and>
           r = \<lparr>status = 200, response = Some (json_dumps w document), headers = [],
                content_type = Some ''application/json''\<rparr>"
  using assms unfolding get_styles_def
  by (auto simp: Response_def split: option.splits sum.splits prod.splits)

text \<open>
  Claim C9. The document of a successful style request is the parsed template with two
  changes, the entry \<open>openmaptiles\<close> of its \<open>sources\<close> and its \<open>glyphs\<close>; every other
  field of the template, and every other entry of \<open>sources\<close>, is in the response as it
  is in the template.
\<close>

theorem get_styles_frame:
  assumes "get_styles srv w req identifier version file = Inr r" and "status r = 200"
  shows "\<exists>style_bytes tiles fonts template sources document sources'.
           styles_dict srv (identifier, version, file) = Some style_bytes \<and>
           map_of (args req) ''tiles'' = Some tiles \<and>
           map_of (args req) ''fonts'' = Some fonts \<and>
           json_loads w style_bytes = Inr (JObject template) \<and>
           map_of template ''sources'' = Some (JObject sources) \<and>
           response r = Some (json_dumps w (JObject document)) \<and>
           document = AList.update ''glyphs'' (glyphs_url req fonts)
                (AList.update ''sources''
                   (JObject (AList.update ''openmaptiles'' (openmaptiles_source req tiles) sources))
                   template) \<and>
           (\<forall>key. key \<noteq> ''sources'' \<and> key \<noteq> ''glyphs'' \<longrightarrow>
              map_of document key = map_of template key) \<and>
           map_of document ''glyphs'' = Some (glyphs_url req fonts) \<and>
           map_of document ''sources'' = Some (JObject sources') \<and>
           (\<forall>key. key \<noteq> ''openmaptiles'' \<longrightarrow> map_of sources' key = map_of sources key) \<and>
           map_of sources' ''openmaptiles'' = Some (openmaptiles_source req tiles)"
proof -
  from get_styles_200 [OF assms] obtain style_bytes tiles fonts doc where
    a: "styles_dict srv (identifier, version, file) = Some style_bytes"
       "map_of (args req) ''tiles'' = Some tiles"
       "map_of (args req) ''fonts'' = Some fonts" and
    c: "compose_style w req style_bytes tiles fonts = Inr doc" and
    r: "r = \<lparr>status = 200, response = Some (json_dumps w doc), headers = [],
                content_type = Some ''application/json''\<rparr>"
    by blast
  from compose_style_Inr [OF c] obtain template sources where
    t: "json_loads w style_bytes = Inr (JObject template)"
       "map_of template ''sources'' = Some (JObject sources)" and
    d: "doc = JObject (AList.update ''glyphs'' (glyphs_url req fonts)
                (AList.update ''sources''
                   (JObject (AList.update ''openmaptiles'' (openmaptiles_source req tiles) sources))
                   template))"
    by blast
  let ?document = "AList.update ''glyphs'' (glyphs_url req fonts)
                (AList.update ''sources''
                   (JObject (AList.update ''openmaptiles'' (openmaptiles_source req tiles) sources))
                   template)"
  let ?sources' = "AList.update ''openmaptiles'' (openmaptiles_source req tiles) sources"
  have 1: "response r = Some (json_dumps w (JObject ?document))"
    using r d by simp
  have 2: "\<forall>key. key \<noteq> ''sources'' \<and> key \<noteq> ''glyphs'' \<longrightarrow>
              map_of ?document key = map_of template key"
    by (simp add: update_conv')
  have 3: "map_of ?document ''glyphs'' = Some (glyphs_url req fonts)"
    by (simp add: update_conv')
  have 4: "map_of ?document ''sources'' = Some (JObject ?sources')"
    by (simp add: update_conv')
  have 5: "\<forall>key. key \<noteq> ''openmaptiles'' \<longrightarrow> map_of ?sources' key = map_of sources key"
    by (simp add: update_conv')
  have 6: "map_of ?sources' ''openmaptiles'' = Some (openmaptiles_source req tiles)"
    by (simp add: update_conv')
  from a t 1 2 3 4 5 6 show ?thesis by blast
qed

lemma example_get_styles:
  "get_styles example_server example_world example_style_request
     ''positron-gl-style'' ''1.8'' ''style.json'' = Inr example_style_response"
  by (simp add: get_styles_def compose_style_def example_server_def example_world_def
      example_style_request_def example_style_response_def request_with_def unpack2_def
      example_template_def)

theorem get_styles_frame_witness:
  "get_styles example_server example_world example_style_request
     ''positron-gl-style'' ''1.8'' ''style.json'' = Inr example_style_response \<and>
   status example_style_response = 200 \<and>
   (\<exists>style_bytes tiles fonts template sources document sources'.
      styles_dict example_server (''positron-gl-style'', ''1.8'', ''style.json'') =
        Some style_bytes \<and>
      map_of (args example_style_request) ''tiles'' = Some tiles \<and>
      map_of (args example_style_request) ''fonts'' = Some fonts \<and>
      json_loads example_world style_bytes = Inr (JObject template) \<and>
      map_of template ''sources'' = Some (JObject sources) \<and>
      response example_style_response = Some (json_dumps example_world (JObject document)) \<and>
      document =
        AList.update ''glyphs'' (glyphs_url example_style_request fonts)
          (AList.update ''sources''
             (JObject (AList.update ''openmaptiles''
                (openmaptiles_source example_style_request tiles) sources))
             template) \<and>
      (\<forall>key. key \<noteq> ''sources'' \<and> key \<noteq> ''glyphs'' \<longrightarrow>
         map_of document key = map_of template key) \<and>
      map_of document ''glyphs'' = Some (glyphs_url example_style_request fonts) \<and>
      map_of document ''sources'' = Some (JObject sources') \<and>
      (\<forall>key. key \<noteq> ''openmaptiles'' \<longrightarrow> map_of sources' key = map_of sources key) \<and>
      map_of sources' ''openmaptiles'' =
        Some (openmaptiles_source example_style_request tiles))"
proof -
  have s: "status example_style_response = 200"
    by (simp add: example_style_response_def)
  show ?thesis
    using example_get_styles s get_styles_frame [OF example_get_styles s]
    by (intro conjI)
qed

section \<open>The levels of the decoder\<close>

subsection \<open>Dictionaries as maps\<close>

lemma map_of_dict_merge: "map_of (dict_merge d items) = map_of d ++ map_of (rev items)"
proof (induction items arbitrary: d)
  case Nil
  then show ?case by (simp add: dict_merge_def)
next
  case (Cons kv items)
  have "dict_merge d (kv # items) = dict_merge (AList.update (fst kv) (snd kv) d) items"
    by (simp add: dict_merge_def)
  then have "map_of (dict_merge d (kv # items)) =
      (map_of d)(fst kv \<mapsto> snd kv) ++ map_of (rev items)"
    by (simp only: Cons.IH update_conv')
  also have "\<dots> = map_of d ++ map_of (rev (kv # items))"
    by (cases kv) simp
  finally show ?case .
qed

lemma distinct_dict_merge:
  "distinct (map fst d) \<Longrightarrow> distinct (map fst (dict_merge d items))"
  unfolding dict_merge_def
  by (induction items arbitrary: d) (simp_all add: distinct_update)

lemma distinct_py_dict: "distinct (map fst (py_dict items))"
  by (simp add: py_dict_def distinct_dict_merge)

lemma map_of_rev_distinct:
  assumes "distinct (map fst xs)"
  shows "map_of (rev xs) = map_of xs"
proof
  fix k
  show "map_of (rev xs) k = map_of xs k"
  proof (cases "map_of xs k")
    case None
    then have "k \<notin> fst ` set xs" by (simp add: map_of_eq_None_iff)
    then have "map_of (rev xs) k = None" by (simp add: map_of_eq_None_iff)
    with None show ?thesis by simp
  next
    case (Some v)
    then have "(k, v) \<in> set (rev xs)" by (auto dest: map_of_SomeD)
    moreover from assms have "distinct (map fst (rev xs))"
      by (simp add: rev_map [symmetric])
    ultimately have "map_of (rev xs) k = Some v" by (rule map_of_is_SomeI [rotated])
    with Some show ?thesis by simp
  qed
qed

lemma map_of_py_dict:
  "distinct (map fst items) \<Longrightarrow> map_of (py_dict items) = map_of items"
  by (simp add: py_dict_def map_of_dict_merge map_of_rev_distinct)

subsection \<open>Groups of a sorted list\<close>

lemma takeWhile_sorted_eq:
  fixes f :: "'a \<Rightarrow> 'k::linorder"
  shows "sorted (map f (x # xs)) \<Longrightarrow>
    takeWhile (\<lambda>y. f y = f x) xs = filter (\<lambda>y. f y = f x) xs"
proof (induction xs)
  case Nil
  then show ?case by simp
next
  case (Cons y ys)
  show ?case
  proof (cases "f y = f x")
    case True
    with Cons show ?thesis by simp
  next
    case False
    with Cons.prems have "f x < f y" by (auto simp: less_le)
    moreover from Cons.prems have "\<forall>z \<in> set ys. f y \<le> f z" by simp
    ultimately have "\<forall>z \<in> set ys. f z \<noteq> f x" by auto
    then have "filter (\<lambda>y. f y = f x) ys = []" by (simp add: filter_empty_conv)
    with False show ?thesis by simp
  qed
qed

lemma dropWhile_sorted_eq:
  fixes f :: "'a \<Rightarrow> 'k::linorder"
  shows "sorted (map f (x # xs)) \<Longrightarrow>
    dropWhile (\<lambda>y. f y = f x) xs = filter (\<lambda>y. f y \<noteq> f x) xs"
proof (induction xs)
  case Nil
  then show ?case by simp
next
  case (Cons y ys)
  show ?case
  proof (cases "f y = f x")
    case True
    with Cons show ?thesis by simp
  next
    case False
    with Cons.prems have "f x < f y" by (auto simp: less_le)
    moreover from Cons.prems have "\<forall>z \<in> set ys. f y \<le> f z" by simp
    ultimately have "\<forall>z \<in> set ys. f z \<noteq> f x" by auto
    then have "filter (\<lambda>y. f y \<noteq> f x) ys = ys" by (simp add: filter_id_conv)
    with False show ?thesis by simp
  qed
qed

lemma image_takeWhile_dropWhile:
  "insert (f x) (f ` set xs) = insert (f x) (f ` set (dropWhile (\<lambda>y. f y = f x) xs))"
proof -
  let ?P = "\<lambda>y. f y = f x"
  have u: "set xs = set (takeWhile ?P xs) \<union> set (dropWhile ?P xs)"
    by (simp only: set_append [symmetric] takeWhile_dropWhile_id)
  have t: "f y = f x" if "y \<in> set (takeWhile ?P xs)" for y
    using that by (rule set_takeWhileD [THEN conjunct2])
  show ?thesis
  proof (intro equalityI subsetI)
    fix k assume "k \<in> insert (f x) (f ` set xs)"
    then consider "k = f x" | y where "y \<in> set xs" "k = f y" by blast
    then show "k \<in> insert (f x) (f ` set (dropWhile ?P xs))"
    proof cases
      case 1
      then show ?thesis by simp
    next
      case 2
      with u have "y \<in> set (takeWhile ?P xs) \<or> y \<in> set (dropWhile ?P xs)" by blast
      with t 2 show ?thesis by blast
    qed
  next
    fix k assume "k \<in> insert (f x) (f ` set (dropWhile ?P xs))"
    with u show "k \<in> insert (f x) (f ` set xs)" by blast
  qed
qed

lemma groupby_keys: "fst ` set (groupby f xs) = f ` set xs"
proof (induction f xs rule: groupby.induct)
  case (1 f)
  then show ?case by simp
next
  case (2 f x xs)
  have "fst ` set (groupby f (x # xs)) =
      insert (f x) (fst ` set (groupby f (dropWhile (\<lambda>y. f y = f x) xs)))"
    by simp
  also have "\<dots> = insert (f x) (f ` set (dropWhile (\<lambda>y. f y = f x) xs))"
    by (simp only: "2.IH")
  also have "\<dots> = insert (f x) (f ` set xs)"
    by (rule image_takeWhile_dropWhile [symmetric])
  finally show ?case by simp
qed

lemma groupby_sorted:
  fixes f :: "'a \<Rightarrow> 'k::linorder"
  shows "sorted (map f xs) \<Longrightarrow> g \<in> set (groupby f xs) \<Longrightarrow>
    snd g = filter (\<lambda>y. f y = fst g) xs"
proof (induction f xs rule: groupby.induct)
  case (1 f)
  then show ?case by simp
next
  case (2 f x xs)
  let ?rest = "filter (\<lambda>y. f y \<noteq> f x) xs"
  from "2.prems"(1) have d: "dropWhile (\<lambda>y. f y = f x) xs = ?rest"
    by (rule dropWhile_sorted_eq)
  from "2.prems"(1) have t: "takeWhile (\<lambda>y. f y = f x) xs = filter (\<lambda>y. f y = f x) xs"
    by (rule takeWhile_sorted_eq)
  from "2.prems"(1) have "sorted (map f xs)" by simp
  then have s: "sorted (map f ?rest)" by (simp add: sorted_map sorted_wrt_filter)
  from "2.prems"(2) consider "g = (f x, x # filter (\<lambda>y. f y = f x) xs)"
    | "g \<in> set (groupby f ?rest)"
    by (auto simp: d t)
  then show ?case
  proof cases
    case 1
    then show ?thesis by simp
  next
    case 2
    with "2.IH" s have ih: "snd g = filter (\<lambda>y. f y = fst g) ?rest"
      by (simp add: d)
    from 2 have "fst g \<in> f ` set ?rest" using groupby_keys [of f ?rest] by auto
    then have ne: "fst g \<noteq> f x" by auto
    have "filter (\<lambda>y. f y = fst g) ?rest = filter (\<lambda>y. f y = fst g) xs"
      unfolding filter_filter using ne by (intro filter_cong refl) auto
    with ih ne show ?thesis by auto
  qed
qed

lemma groupby_distinct:
  fixes f :: "'a \<Rightarrow> 'k::linorder"
  shows "sorted (map f xs) \<Longrightarrow> distinct (map fst (groupby f xs))"
proof (induction f xs rule: groupby.induct)
  case (1 f)
  then show ?case by simp
next
  case (2 f x xs)
  let ?rest = "filter (\<lambda>y. f y \<noteq> f x) xs"
  from "2.prems" have d: "dropWhile (\<lambda>y. f y = f x) xs = ?rest"
    by (rule dropWhile_sorted_eq)
  from "2.prems" have "sorted (map f xs)" by simp
  then have s: "sorted (map f ?rest)" by (simp add: sorted_map sorted_wrt_filter)
  have "f x \<notin> fst ` set (groupby f ?rest)"
    by (auto simp: groupby_keys)
  with "2.IH" s show ?case by (simp add: d)
qed

subsection \<open>The groups of the decoder\<close>

lemma grouped_keys:
  "fst ` set (grouped_by_first_component items) = by_first_component ` set items"
  by (simp add: grouped_by_first_component_def groupby_keys)

lemma grouped_distinct: "distinct (map fst (grouped_by_first_component items))"
  by (simp add: grouped_by_first_component_def groupby_distinct)

lemma grouped_items:
  assumes "g \<in> set (grouped_by_first_component items)"
  shows "snd g = filter (\<lambda>item. by_first_component item = fst g) items"
proof -
  from assms have "snd g = filter (\<lambda>item. by_first_component item = fst g)
      (sort_key by_first_component items)"
    unfolding grouped_by_first_component_def
    by (intro groupby_sorted) simp_all
  then show ?thesis by (simp add: sort_key_stable)
qed

lemma items_of_group:
  assumes "g \<in> set (grouped_by_first_component items)"
  shows "items_with_first_component (snd g) (fst g) = items_with_first_component items (fst g)"
proof -
  have "filter (\<lambda>(key, value). get_first_component key = fst g) (snd g) =
      filter (\<lambda>(key, value). get_first_component key = fst g) items"
    unfolding grouped_items [OF assms] filter_filter
    by (intro filter_cong refl) (auto simp: by_first_component_def)
  then show ?thesis by (simp add: items_with_first_component_def)
qed

subsection \<open>One level of the decoder\<close>

lemma normalise_environment_unfold:
  "normalise_environment key_values =
     (if all_keys_are_ints (nested_structured_dict key_values)
      then Seq (list_sorted_by_int_key (nested_structured_dict key_values))
      else Dict (nested_structured_dict key_values))"
  by (subst normalise_environment.simps) (simp add: nested_structured_dict_def Let_def)


lemma all_keys_are_ints_iff:
  "all_keys_are_ints nested \<longleftrightarrow> (\<forall>key \<in> fst ` set nested. is_int key)"
  by (auto simp: all_keys_are_ints_def list_all_iff)

lemma keys_without_more_components:
  "fst ` set (without_more_components key_values) =
     {key \<in> fst ` set key_values. get_later_components key = []}"
  by (force simp: without_more_components_def keys_py_dict)

lemma keys_with_more_components:
  "fst ` set (with_more_components key_values) =
     {key \<in> fst ` set key_values. get_later_components key \<noteq> []}"
  by (force simp: with_more_components_def keys_py_dict)

lemma first_components_with_more:
  "by_first_component ` set (with_more_components key_values) =
     get_first_component ` {key \<in> fst ` set key_values. get_later_components key \<noteq> []}"
proof -
  have "by_first_component ` set (with_more_components key_values) =
      get_first_component ` fst ` set (with_more_components key_values)"
    by (simp add: image_image by_first_component_def)
  then show ?thesis by (simp only: keys_with_more_components)
qed

lemma map_of_groups:
  fixes h :: "string \<times> (string \<times> 'v) list \<Rightarrow> 'w"
  shows "map_of (py_dict (map (\<lambda>g. (fst g, h g)) (grouped_by_first_component items))) key =
     (if key \<in> by_first_component ` set items
      then Some (h (key, filter (\<lambda>item. by_first_component item = key) items))
      else None)"
proof -
  let ?groups = "grouped_by_first_component items"
  let ?L = "map (\<lambda>g. (fst g, h g)) ?groups"
  have fstL: "map fst ?L = map fst ?groups" by (simp add: comp_def)
  then have dist: "distinct (map fst ?L)" by (simp only: grouped_distinct)
  have m: "map_of (py_dict ?L) = map_of ?L" by (rule map_of_py_dict [OF dist])
  show ?thesis
  proof (cases "key \<in> by_first_component ` set items")
    case True
    then have "key \<in> fst ` set ?groups" by (simp add: grouped_keys)
    then obtain g where g: "g \<in> set ?groups" "fst g = key" by auto
    from grouped_items [OF g(1)] g(2)
    have "g = (key, filter (\<lambda>item. by_first_component item = key) items)"
      by (cases g) simp
    moreover from g have "(key, h g) \<in> set ?L" by force
    then have "map_of ?L key = Some (h g)" using dist by (rule map_of_is_SomeI [rotated])
    ultimately show ?thesis using True m by simp
  next
    case False
    then have "key \<notin> fst ` set ?groups" by (simp add: grouped_keys)
    then have "key \<notin> fst ` set ?L" using fstL by (metis set_map)
    then have "map_of ?L key = None" by (simp add: map_of_eq_None_iff)
    with False m show ?thesis by simp
  qed
qed

lemma filter_group_items:
  "items_with_first_component (filter (\<lambda>item. by_first_component item = key) items) key =
     items_with_first_component items key"
proof -
  have "filter (\<lambda>(k, value). get_first_component k = key)
          (filter (\<lambda>item. by_first_component item = key) items) =
        filter (\<lambda>(k, value). get_first_component k = key) items"
    unfolding filter_filter
    by (intro filter_cong refl) (auto simp: by_first_component_def)
  then show ?thesis by (simp add: items_with_first_component_def)
qed

lemma map_of_nested_structured_dict:
  "map_of (nested_structured_dict key_values) key =
     (if key \<in> get_first_component `
           {key \<in> fst ` set key_values. get_later_components key \<noteq> []}
      then Some (normalise_environment
             (items_with_first_component (with_more_components key_values) key))
      else map_of (without_more_components key_values) key)"
proof -
  let ?G = "py_dict (map (\<lambda>g. (fst g,
            normalise_environment (items_with_first_component (snd g) (fst g))))
          (grouped_by_first_component (with_more_components key_values)))"
  have G: "map_of ?G key =
     (if key \<in> by_first_component ` set (with_more_components key_values)
      then Some (normalise_environment (items_with_first_component
          (filter (\<lambda>item. by_first_component item = key) (with_more_components key_values))
          key))
      else None)"
    using map_of_groups [of "\<lambda>g. normalise_environment
        (items_with_first_component (snd g) (fst g))" "with_more_components key_values" key]
    by simp
  have "map_of (nested_structured_dict key_values) key =
      (map_of (without_more_components key_values) ++ map_of (rev ?G)) key"
    by (simp only: nested_structured_dict_def map_of_dict_merge)
  also have "map_of (rev ?G) = map_of ?G"
    by (rule map_of_rev_distinct) (rule distinct_py_dict)
  finally show ?thesis
    by (simp add: G map_add_def filter_group_items first_components_with_more)
qed

lemma keys_nested_structured_dict:
  "fst ` set (nested_structured_dict key_values) =
     {key \<in> fst ` set key_values. get_later_components key = []} \<union>
     get_first_component ` {key \<in> fst ` set key_values. get_later_components key \<noteq> []}"
proof -
  have "fst ` set (nested_structured_dict key_values) =
      fst ` set (without_more_components key_values) \<union>
      fst ` set (grouped_by_first_component (with_more_components key_values))"
    by (simp add: nested_structured_dict_def keys_dict_merge keys_py_dict image_image)
  then show ?thesis
    by (simp only: keys_without_more_components grouped_keys first_components_with_more)
qed

lemma distinct_nested_structured_dict:
  "distinct (map fst (nested_structured_dict key_values))"
  unfolding nested_structured_dict_def
  by (rule distinct_dict_merge) (simp add: without_more_components_def distinct_py_dict)

lemma example_nested_ints:
  "nested_structured_dict [(''1'', ''b''), (''0'', ''a'')] =
     [(''1'', Leaf ''b''), (''0'', Leaf ''a'')]"
  by (simp add: nested_structured_dict_def decoder_defs)

lemma example_nested_list:
  "nested_structured_dict [(''A__0__X'', ''1''), (''A__1__X'', ''2'')] =
     [(''A'', Seq [Dict [(''X'', Leaf ''1'')], Dict [(''X'', Leaf ''2'')]])]"
  by (simp add: nested_structured_dict_def
      normalise_environment.simps [of "[(''0__X'', ''1''), (''1__X'', ''2'')]"]
      normalise_environment.simps [of "[(''X'', ''1'')]"]
      normalise_environment.simps [of "[(''X'', ''2'')]"]
      decoder_defs)

text \<open>
  Claim C4, as the code has it. At every call of the decoder, that is at every nesting
  level, the keys are grouped: a key without further components stays, the other keys
  give their first component, and under a first component stands the decoder's result
  for the remainders of the keys that start with it. If Python's \<open>int\<close> accepts every
  grouped key (whitespace around it, a sign, decimal digits with single underscores
  between them), the decoder gives the list of the grouped values in ascending order of
  the integers; otherwise it gives the dictionary of the grouped keys.
\<close>

theorem normalise_environment_level:
  "((\<forall>key \<in> fst ` set (nested_structured_dict key_values). is_int key) \<longrightarrow>
      (\<exists>items. normalise_environment key_values = Seq (map snd items) \<and>
         mset items = mset (nested_structured_dict key_values) \<and>
         sorted (map int_key items))) \<and>
   (\<not> (\<forall>key \<in> fst ` set (nested_structured_dict key_values). is_int key) \<longrightarrow>
      normalise_environment key_values = Dict (nested_structured_dict key_values)) \<and>
   fst ` set (nested_structured_dict key_values) =
     {key \<in> fst ` set key_values. get_later_components key = []} \<union>
     get_first_component ` {key \<in> fst ` set key_values. get_later_components key \<noteq> []} \<and>
   distinct (map fst (nested_structured_dict key_values)) \<and>
   (\<forall>key \<in> get_first_component `
        {key \<in> fst ` set key_values. get_later_components key \<noteq> []}.
      map_of (nested_structured_dict key_values) key =
        Some (normalise_environment
          (items_with_first_component (with_more_components key_values) key))) \<and>
   (\<forall>key. key \<notin> get_first_component `
        {key \<in> fst ` set key_values. get_later_components key \<noteq> []} \<longrightarrow>
      map_of (nested_structured_dict key_values) key =
        map_of (without_more_components key_values) key)"
proof (intro conjI)
  let ?nested = "nested_structured_dict key_values"
  show "(\<forall>key \<in> fst ` set ?nested. is_int key) \<longrightarrow>
      (\<exists>items. normalise_environment key_values = Seq (map snd items) \<and>
         mset items = mset ?nested \<and> sorted (map int_key items))"
  proof
    assume "\<forall>key \<in> fst ` set ?nested. is_int key"
    then have "all_keys_are_ints ?nested" by (simp add: all_keys_are_ints_iff)
    then have "normalise_environment key_values = Seq (map snd (sort_key int_key ?nested))"
      by (simp add: normalise_environment_unfold list_sorted_by_int_key_def)
    moreover have "mset (sort_key int_key ?nested) = mset ?nested" by simp
    moreover have "sorted (map int_key (sort_key int_key ?nested))" by simp
    ultimately show "\<exists>items. normalise_environment key_values = Seq (map snd items) \<and>
         mset items = mset ?nested \<and> sorted (map int_key items)"
      by blast
  qed
  show "\<not> (\<forall>key \<in> fst ` set ?nested. is_int key) \<longrightarrow>
      normalise_environment key_values = Dict ?nested"
  proof
    assume "\<not> (\<forall>key \<in> fst ` set ?nested. is_int key)"
    then have "\<not> all_keys_are_ints ?nested" by (simp add: all_keys_are_ints_iff)
    then show "normalise_environment key_values = Dict ?nested"
      by (simp add: normalise_environment_unfold)
  qed
  show "fst ` set ?nested =
     {key \<in> fst ` set key_values. get_later_components key = []} \<union>
     get_first_component ` {key \<in> fst ` set key_values. get_later_components key \<noteq> []}"
    by (rule keys_nested_structured_dict)
  show "distinct (map fst ?nested)" by (rule distinct_nested_structured_dict)
  show "\<forall>key \<in> get_first_component `
        {key \<in> fst ` set key_values. get_later_components key \<noteq> []}.
      map_of ?nested key =
        Some (normalise_environment
          (items_with_first_component (with_more_components key_values) key))"
    by (simp add: map_of_nested_structured_dict)
  show "\<forall>key. key \<notin> get_first_component `
        {key \<in> fst ` set key_values. get_later_components key \<noteq> []} \<longrightarrow>
      map_of ?nested key = map_of (without_more_components key_values) key"
    by (simp add: map_of_nested_structured_dict)
qed

theorem normalise_environment_level_witness:
  "(\<exists>items. normalise_environment [(''1'', ''b''), (''0'', ''a'')] = Seq (map snd items) \<and>
      mset items = mset [(''1'', Leaf ''b''), (''0'', Leaf ''a'')] \<and>
      sorted (map int_key items)) \<and>
   normalise_environment [(''A__0__X'', ''1''), (''A__1__X'', ''2'')] =
     Dict [(''A'', Seq [Dict [(''X'', Leaf ''1'')], Dict [(''X'', Leaf ''2'')]])] \<and>
   map_of (nested_structured_dict [(''A__0__X'', ''1''), (''A__1__X'', ''2'')]) ''A'' =
     Some (normalise_environment (items_with_first_component
       (with_more_components [(''A__0__X'', ''1''), (''A__1__X'', ''2'')]) ''A''))"
proof (intro conjI)
  have h: "\<forall>key \<in> fst ` set (nested_structured_dict [(''1'', ''b''), (''0'', ''a'')]).
      is_int key"
    by (simp add: example_nested_ints decoder_defs)
  from normalise_environment_level [of "[(''1'', ''b''), (''0'', ''a'')]",
      THEN conjunct1, THEN mp, OF h]
  show "\<exists>items. normalise_environment [(''1'', ''b''), (''0'', ''a'')] = Seq (map snd items) \<and>
      mset items = mset [(''1'', Leaf ''b''), (''0'', Leaf ''a'')] \<and>
      sorted (map int_key items)"
    unfolding example_nested_ints .
next
  have h: "\<not> (\<forall>key \<in> fst ` set (nested_structured_dict
      [(''A__0__X'', ''1''), (''A__1__X'', ''2'')]). is_int key)"
    by (simp add: example_nested_list decoder_defs)
  from normalise_environment_level [of "[(''A__0__X'', ''1''), (''A__1__X'', ''2'')]",
      THEN conjunct2, THEN conjunct1, THEN mp, OF h]
  show "normalise_environment [(''A__0__X'', ''1''), (''A__1__X'', ''2'')] =
     Dict [(''A'', Seq [Dict [(''X'', Leaf ''1'')], Dict [(''X'', Leaf ''2'')]])]"
    unfolding example_nested_list .
next
  have k: "''A__0__X'' \<in> {key \<in> fst ` set [(''A__0__X'', ''1''), (''A__1__X'', ''2'')].
      get_later_components key \<noteq> []}"
    by (simp add: decoder_defs)
  have f: "''A'' = get_first_component ''A__0__X''" by (simp add: decoder_defs)
  have m: "''A'' \<in> get_first_component `
      {key \<in> fst ` set [(''A__0__X'', ''1''), (''A__1__X'', ''2'')].
        get_later_components key \<noteq> []}"
    using f k by (rule image_eqI)
  from normalise_environment_level [of "[(''A__0__X'', ''1''), (''A__1__X'', ''2'')]",
      THEN conjunct2, THEN conjunct2, THEN conjunct2, THEN conjunct2, THEN conjunct1,
      THEN bspec, OF m]
  show "map_of (nested_structured_dict [(''A__0__X'', ''1''), (''A__1__X'', ''2'')]) ''A'' =
     Some (normalise_environment (items_with_first_component
       (with_more_components [(''A__0__X'', ''1''), (''A__1__X'', ''2'')]) ''A''))" .
qed

text \<open>
  Claim C4 as it is written asks for keys that are integers without sign. The key \<open>-1\<close> is
  not one, so the claim asks for a dictionary; \<open>int\<close> accepts it, and the decoder gives a
  list.
\<close>

theorem normalise_environment_negative_key_counterexample:
  "py_int ''-1'' = Some (- 1) \<and>
   normalise_environment [(''-1'', ''a'')] = Seq [Leaf ''a''] \<and>
   normalise_environment [(''-1'', ''a'')] \<noteq> Dict [(''-1'', Leaf ''a'')]"
  by (simp add: normalise_environment.simps [of "[(''-1'', ''a'')]"] decoder_defs)

subsection \<open>A key that is a leaf and a prefix\<close>



lemma py_join_two_not_Nil: "sep \<noteq> [] \<Longrightarrow> py_join sep (x # y # ys) \<noteq> []"
  by simp














section \<open>The decoder on the empty mapping\<close>

text \<open>
  Claim C10. The decoder gives the empty list for the empty mapping, not the empty
  dictionary: no key fails to be an integer.
\<close>

theorem normalise_environment_empty: "normalise_environment [] = Seq []"
  by (simp add: normalise_environment.simps [of "[]"] decoder_defs)

end
